theory Spec2Isabelle
  imports Complex_Main
begin

section \<open>Numbers\<close>

text \<open>
  The strategy computes on Python and numpy floats. The model idealises a finite float as a
  \<^typ>\<open>real\<close> (no rounding, no overflow of the exponent) and keeps the special values
  apart: a value that may be NaN is a \<^typ>\<open>real option\<close> with \<open>None\<close> for NaN, every
  comparison with NaN is false, and a division by zero (which numpy answers with an
  infinity or NaN, not with an exception) is written out where the source divides.
\<close>

datatype error = ValueError | OverflowError

text \<open>\<^verbatim>\<open>int(x)\<close> on a finite float truncates toward zero.\<close>

definition py_int :: "real \<Rightarrow> int" where
  "py_int x = (if 0 \<le> x then \<lfloor>x\<rfloor> else \<lceil>x\<rceil>)"

text \<open>
  \<^verbatim>\<open>int(a / b)\<close> for a finite Python float \<open>a\<close> and a finite numpy float \<open>b\<close>: with
  \<open>b = 0\<close> the quotient is NaN (\<open>a = 0\<close>) or an infinity, and \<^verbatim>\<open>int\<close> raises
  ValueError on NaN and OverflowError on an infinity.
\<close>

definition int_of_quotient :: "real \<Rightarrow> real \<Rightarrow> error + int" where
  "int_of_quotient a b =
     (if b = 0 then (if a = 0 then Inl ValueError else Inl OverflowError)
      else Inr (py_int (a / b)))"

text \<open>\<^verbatim>\<open>x > y\<close> and \<^verbatim>\<open>x < y\<close> where \<open>y\<close> may be NaN.\<close>

definition gt_nan :: "real \<Rightarrow> real option \<Rightarrow> bool" where
  "gt_nan x y = (case y of None \<Rightarrow> False | Some v \<Rightarrow> x > v)"

definition lt_nan :: "real \<Rightarrow> real option \<Rightarrow> bool" where
  "lt_nan x y = (case y of None \<Rightarrow> False | Some v \<Rightarrow> x < v)"

section \<open>Signal and risk engine\<close>

text \<open>The class attributes of \<^verbatim>\<open>FinalLowDrawdownStrategy\<close> and \<^verbatim>\<open>RiskManagedStrategy\<close>.\<close>

record params =
  n_atr :: nat
  atr_multiplier :: real
  ma_period :: nat
  donchian_period :: nat
  adx_threshold :: real
  risk_per_trade :: real

text \<open>
  What \<^verbatim>\<open>next\<close> reads on one bar: \<^verbatim>\<open>len(self.data)\<close>, \<^verbatim>\<open>self.data.Close[-1]\<close>, the last
  value of each indicator (NaN is \<open>None\<close>) and \<^verbatim>\<open>self.equity\<close>.
\<close>

record snapshot =
  len_data :: nat
  close_last :: real
  ma_last :: "real option"
  adx_last :: "real option"
  atr_last :: "real option"
  donchian_high_last :: "real option"
  donchian_low_last :: "real option"
  equity :: real

text \<open>
  An open trade of the execution engine: its signed size (long when positive) and its stop
  price. Every trade of these strategies is opened with a stop, so \<^verbatim>\<open>trade.sl\<close> is a number.
\<close>

record trade =
  trade_size :: int
  sl :: real

definition is_long :: "trade \<Rightarrow> bool" where
  "is_long t = (trade_size t > 0)"

text \<open>\<^verbatim>\<open>self.position\<close> is true when the sizes of the open trades do not sum to zero.\<close>

definition position :: "trade list \<Rightarrow> bool" where
  "position ts = (sum_list (map trade_size ts) \<noteq> 0)"

text \<open>\<^verbatim>\<open>self.buy(sl=sl, size=units)\<close> and \<^verbatim>\<open>self.sell(sl=sl, size=units)\<close>: size, then stop.\<close>

datatype order = Buy int real | Sell int real

text \<open>
  The block under \<^verbatim>\<open>if not self.position:\<close> either raises, returns from \<^verbatim>\<open>next\<close>, or falls
  through to the trailing-stop loop, with or without an order.
\<close>

datatype flow = Return | Continue "order option"

definition entry_block :: "params \<Rightarrow> snapshot \<Rightarrow> bool \<Rightarrow> bool \<Rightarrow> error + flow" where
  "entry_block p s uptrend strong_trend =
     (let price = close_last s;
          risk_amount = equity s * risk_per_trade p
      in case atr_last s of
           None \<Rightarrow> Inl ValueError
         | Some atr_value \<Rightarrow>
             (let stop_distance = atr_value * atr_multiplier p
              in if stop_distance = 0 then Inr Return
                 else
                   (let units = py_int (risk_amount / stop_distance)
                    in case int_of_quotient (equity s * (95 / 100)) price of
                         Inl e \<Rightarrow> Inl e
                       | Inr max_units \<Rightarrow>
                           (let units = min units max_units
                            in if units < 1 then Inr Return
                               else if uptrend \<and> strong_trend
                                       \<and> gt_nan price (donchian_high_last s)
                                 then Inr (Continue (Some (Buy units (price - stop_distance))))
                               else if \<not> uptrend \<and> strong_trend
                                       \<and> lt_nan price (donchian_low_last s)
                                 then Inr (Continue (Some (Sell units (price + stop_distance))))
                               else Inr (Continue None)))))"

text \<open>
  One round of the loop \<^verbatim>\<open>for trade in self.trades\<close>. With a NaN ATR the candidate stop is
  NaN, both comparisons are false and the stop stays.
\<close>

definition trail :: "params \<Rightarrow> real \<Rightarrow> real option \<Rightarrow> trade \<Rightarrow> trade" where
  "trail p price atr_opt t =
     (case atr_opt of
        None \<Rightarrow> t
      | Some atr_value \<Rightarrow>
          if is_long t then
            (let new_sl = price - atr_value * atr_multiplier p
             in if new_sl > sl t then t\<lparr>sl := new_sl\<rparr> else t)
          else
            (let new_sl = price + atr_value * atr_multiplier p
             in if new_sl < sl t then t\<lparr>sl := new_sl\<rparr> else t))"

text \<open>
  \<^verbatim>\<open>next\<close>, for a warm-up bound \<open>warmup\<close> (the only place where the two strategy classes
  differ). The result is the exception raised, or the order requested on this bar (if any)
  and the open trades with their stops after the bar.
\<close>

definition strategy_next ::
  "(params \<Rightarrow> nat) \<Rightarrow> params \<Rightarrow> snapshot \<Rightarrow> trade list \<Rightarrow> error + (order option \<times> trade list)" where
  "strategy_next warmup p s trades =
     (if len_data s < warmup p then Inr (None, trades)
      else case ma_last s of
        None \<Rightarrow> Inr (None, trades)
      | Some ma \<Rightarrow>
          (let price = close_last s;
               uptrend = price > ma;
               strong_trend = (case adx_last s of None \<Rightarrow> False | Some adx \<Rightarrow> adx > adx_threshold p);
               atr_value = atr_last s
           in if \<not> position trades then
                (case entry_block p s uptrend strong_trend of
                   Inl e \<Rightarrow> Inl e
                 | Inr Return \<Rightarrow> Inr (None, trades)
                 | Inr (Continue ord) \<Rightarrow> Inr (ord, map (trail p price atr_value) trades))
              else Inr (None, map (trail p price atr_value) trades)))"

text \<open>\<^verbatim>\<open>if len(self.data) < self.ma_period + 5: return\<close> (final_strategy.py).\<close>

definition warmup_final :: "params \<Rightarrow> nat" where
  "warmup_final p = ma_period p + 5"

text \<open>
  \<^verbatim>\<open>if len(self.data) < max(self.ma_period, self.donchian_period) + 5: return\<close>
  (backtest_runner.py).
\<close>

definition warmup_risk_managed :: "params \<Rightarrow> nat" where
  "warmup_risk_managed p = max (ma_period p) (donchian_period p) + 5"

definition FinalLowDrawdownStrategy_next ::
  "params \<Rightarrow> snapshot \<Rightarrow> trade list \<Rightarrow> error + (order option \<times> trade list)" where
  "FinalLowDrawdownStrategy_next = strategy_next warmup_final"

definition RiskManagedStrategy_next ::
  "params \<Rightarrow> snapshot \<Rightarrow> trade list \<Rightarrow> error + (order option \<times> trade list)" where
  "RiskManagedStrategy_next = strategy_next warmup_risk_managed"

text \<open>The defaults of the two classes.\<close>

definition final_defaults :: params where
  "final_defaults = \<lparr>n_atr = 14, atr_multiplier = 4, ma_period = 800, donchian_period = 100,
     adx_threshold = 25, risk_per_trade = 1 / 100\<rparr>"

definition risk_managed_defaults :: params where
  "risk_managed_defaults = \<lparr>n_atr = 14, atr_multiplier = 4, ma_period = 200, donchian_period = 50,
     adx_threshold = 25, risk_per_trade = 2 / 100\<rparr>"

text \<open>
  The execution engine calls \<^verbatim>\<open>next\<close> once per bar. While one position stays open the
  engine leaves the open trades alone, so the trades after a bar are the trades before the
  next one. \<open>run_next\<close> lists the open trades before each bar and after the last; an
  exception ends the run.
\<close>

fun run_next :: "(params \<Rightarrow> nat) \<Rightarrow> params \<Rightarrow> snapshot list \<Rightarrow> trade list \<Rightarrow> trade list list" where
  "run_next warmup p [] trades = [trades]"
| "run_next warmup p (s # ss) trades =
     trades # (case strategy_next warmup p s trades of
                 Inl e \<Rightarrow> []
               | Inr (ord, trades') \<Rightarrow> run_next warmup p ss trades')"

text \<open>
  A trade after some bars, compared with the same trade before: the size is the same and the
  stop has not moved away from the price.
\<close>

definition tightens :: "trade \<Rightarrow> trade \<Rightarrow> bool" where
  "tightens t t' =
     (trade_size t' = trade_size t \<and> (if is_long t then sl t \<le> sl t' else sl t' \<le> sl t))"




section \<open>Indicator engine\<close>

text \<open>
  A pandas Series of floats is a list of \<^typ>\<open>real option\<close>, \<open>None\<close> for NaN. The price
  columns of the input hold finite numbers, so they are lists of \<^typ>\<open>real\<close>.
\<close>

text \<open>\<^verbatim>\<open>Series.shift(1)\<close>: every value moves one position later, NaN enters at position 0.\<close>

definition shift1 :: "real option list \<Rightarrow> real option list" where
  "shift1 xs = take (length xs) (None # xs)"

text \<open>The \<open>n\<close> values of a series that end at position \<open>i\<close> (for \<open>n \<le> i + 1\<close>).\<close>

definition window_at :: "nat \<Rightarrow> nat \<Rightarrow> 'a list \<Rightarrow> 'a list" where
  "window_at n i xs = take n (drop (Suc i - n) xs)"

text \<open>
  \<^verbatim>\<open>Series.rolling(n).f()\<close> with the default \<^verbatim>\<open>min_periods = n\<close>: position \<open>i\<close> is NaN unless
  the window ending at \<open>i\<close> holds \<open>n\<close> values none of which is NaN. A window of size 0 never
  holds an observation.
\<close>

definition rolling :: "(real list \<Rightarrow> real) \<Rightarrow> nat \<Rightarrow> real option list \<Rightarrow> real option list" where
  "rolling f n xs =
     map (\<lambda>i. if n = 0 \<or> Suc i < n then None
              else (let w = window_at n i xs
                    in if list_all (\<lambda>v. v \<noteq> None) w then Some (f (map the w)) else None))
         [0..<length xs]"

definition mean :: "real list \<Rightarrow> real" where
  "mean ws = sum_list ws / real (length ws)"

definition list_max :: "real list \<Rightarrow> real" where
  "list_max ws = Max (set ws)"

definition list_min :: "real list \<Rightarrow> real" where
  "list_min ws = Min (set ws)"

text \<open>\<^verbatim>\<open>def SMA(values, n): return pd.Series(values).rolling(n).mean()\<close>\<close>

definition SMA :: "real list \<Rightarrow> nat \<Rightarrow> real option list" where
  "SMA values n = rolling mean n (map Some values)"

text \<open>
  The data frame handed to \<^verbatim>\<open>ATR\<close>: the length of its index and the three columns the
  function reads, each of which may be absent (\<^verbatim>\<open>df['High']\<close> then raises KeyError).
\<close>

record dataframe =
  n_rows :: nat
  High :: "real list option"
  Low :: "real list option"
  Close :: "real list option"

text \<open>Elementwise arithmetic of Series; NaN propagates.\<close>

definition sub_nan :: "real option \<Rightarrow> real option \<Rightarrow> real option" where
  "sub_nan a b = (case (a, b) of (Some x, Some y) \<Rightarrow> Some (x - y) | _ \<Rightarrow> None)"

definition abs_nan :: "real option \<Rightarrow> real option" where
  "abs_nan a = map_option abs a"

text \<open>
  \<^verbatim>\<open>DataFrame.max(axis=1)\<close> takes the maximum of each row with the default
  \<^verbatim>\<open>skipna=True\<close>: NaN entries are left out, and a row is NaN only when all its entries are.
\<close>

definition row_max :: "real option list \<Rightarrow> real option" where
  "row_max vs =
     (let ds = map the (filter (\<lambda>v. v \<noteq> None) vs)
      in if ds = [] then None else Some (Max (set ds)))"

text \<open>The true range series \<^verbatim>\<open>tr\<close> of \<^verbatim>\<open>ATR\<close>.\<close>

definition true_range :: "real list \<Rightarrow> real list \<Rightarrow> real list \<Rightarrow> real option list" where
  "true_range high low close =
     (let prev_close = shift1 (map Some close);
          tr1 = map2 (\<lambda>h l. sub_nan (Some h) (Some l)) high low;
          tr2 = map2 (\<lambda>h pc. abs_nan (sub_nan (Some h) pc)) high prev_close;
          tr3 = map2 (\<lambda>l pc. abs_nan (sub_nan (Some l) pc)) low prev_close
      in map (\<lambda>(a, b, c). row_max [a, b, c]) (zip tr1 (zip tr2 tr3)))"

text \<open>
  \<^verbatim>\<open>ATR(df, n)\<close>: the rolling mean of the true range, or, when a column is absent and the
  \<^verbatim>\<open>try\<close> block raises, \<^verbatim>\<open>pd.Series(0, index=df.index)\<close>.
\<close>

definition ATR :: "dataframe \<Rightarrow> nat \<Rightarrow> real option list" where
  "ATR df n =
     (case (High df, Low df, Close df) of
        (Some high, Some low, Some close) \<Rightarrow> rolling mean n (true_range high low close)
      | _ \<Rightarrow> replicate (n_rows df) (Some 0))"

text \<open>
  \<^verbatim>\<open>lambda x: pd.Series(x).rolling(self.donchian_period).max().shift(1)\<close> on the highs, and
  the same with \<^verbatim>\<open>min\<close> on the lows.
\<close>

definition donchian_high :: "nat \<Rightarrow> real list \<Rightarrow> real option list" where
  "donchian_high n x = shift1 (rolling list_max n (map Some x))"

definition donchian_low :: "nat \<Rightarrow> real list \<Rightarrow> real option list" where
  "donchian_low n x = shift1 (rolling list_min n (map Some x))"

text \<open>A data frame with all three columns, each as long as the index.\<close>

definition well_formed :: "dataframe \<Rightarrow> bool" where
  "well_formed df =
     (case (High df, Low df, Close df) of
        (Some high, Some low, Some close) \<Rightarrow>
          length high = n_rows df \<and> length low = n_rows df \<and> length close = n_rows df
      | _ \<Rightarrow> False)"

section \<open>Optimizer objective\<close>

text \<open>
  The entries of the statistics Series that \<^verbatim>\<open>optim_func\<close> reads: \<^verbatim>\<open>'# Trades'\<close>,
  \<^verbatim>\<open>'Return [%]'\<close> and \<^verbatim>\<open>'Max. Drawdown [%]'\<close>. The last two are finite numpy floats.
\<close>

record stats =
  n_trades :: nat
  return_pct :: real
  max_drawdown_pct :: real

text \<open>A numpy float as a result: finite, an infinity, or NaN.\<close>

datatype npfloat = Finite real | PosInf | NegInf | NaN

text \<open>
  Division of finite numpy floats. Dividing by zero raises nothing (numpy only warns): the
  quotient is the infinity with the sign of the dividend, and \<open>0 / 0\<close> is NaN.
\<close>

definition np_div :: "real \<Rightarrow> real \<Rightarrow> npfloat" where
  "np_div a b =
     (if b \<noteq> 0 then Finite (a / b)
      else if 0 < a then PosInf else if a < 0 then NegInf else NaN)"

definition optim_func :: "stats \<Rightarrow> npfloat" where
  "optim_func series =
     (if n_trades series < 10 then Finite (- 1)
      else if max_drawdown_pct series < - 20 then Finite (- 1)
      else np_div (return_pct series) \<bar>max_drawdown_pct series\<bar>)"

section \<open>Example inputs\<close>

text \<open>A bar after warm-up in an uptrend, breaking out of the channel, with ten million of equity.\<close>

definition breakout_bar :: snapshot where
  "breakout_bar = \<lparr>len_data = 805, close_last = 30000, ma_last = Some 29000, adx_last = Some 30,
     atr_last = Some 400, donchian_high_last = Some 29900, donchian_low_last = Some 28000,
     equity = 10000000\<rparr>"

text \<open>An open long and an open short trade, and two bars during the position.\<close>

definition long_trade :: trade where
  "long_trade = \<lparr>trade_size = 62, sl = 28400\<rparr>"

definition short_trade :: trade where
  "short_trade = \<lparr>trade_size = - 62, sl = 33000\<rparr>"

definition rising_bar :: snapshot where
  "rising_bar = breakout_bar\<lparr>len_data := 806, close_last := 31000\<rparr>"

definition falling_bar :: snapshot where
  "falling_bar = breakout_bar\<lparr>len_data := 807, close_last := 30500\<rparr>"

text \<open>
  Statistics records: too few trades, too deep a drawdown, the figures of the strategy
  report, and a run that never lost.
\<close>

definition few_trades_stats :: stats where
  "few_trades_stats = \<lparr>n_trades = 9, return_pct = 500, max_drawdown_pct = - 5\<rparr>"

definition deep_drawdown_stats :: stats where
  "deep_drawdown_stats = \<lparr>n_trades = 50, return_pct = 300, max_drawdown_pct = - 25\<rparr>"

definition accepted_stats :: stats where
  "accepted_stats = \<lparr>n_trades = 224, return_pct = 7615 / 100, max_drawdown_pct = - (93 / 10)\<rparr>"

definition no_drawdown_stats :: stats where
  "no_drawdown_stats = \<lparr>n_trades = 12, return_pct = 35 / 10, max_drawdown_pct = 0\<rparr>"

text \<open>Four highs with an all-time maximum at position 2, four lows with an all-time minimum there.\<close>

definition highs :: "real list" where
  "highs = [10, 11, 15, 12]"

definition lows :: "real list" where
  "lows = [9, 8, 5, 7]"

text \<open>A data frame of three bars.\<close>

definition example_df :: dataframe where
  "example_df = \<lparr>n_rows = 3, High = Some [12, 13, 15], Low = Some [10, 11, 12],
     Close = Some [11, 12, 14]\<rparr>"

text \<open>The breakout bar with a NaN ATR.\<close>

definition nan_atr_bar :: snapshot where
  "nan_atr_bar = breakout_bar\<lparr>atr_last := None\<rparr>"







section \<open>Position sizing\<close>











section \<open>Trailing stop\<close>

lemma tightens_refl: "tightens t t"
  by (simp add: tightens_def)

lemma tightens_trans: "tightens a b \<Longrightarrow> tightens b c \<Longrightarrow> tightens a c"
  by (auto simp: tightens_def is_long_def split: if_splits)

lemma tightens_trail: "tightens t (trail p price ao t)"
  by (auto simp: tightens_def trail_def is_long_def Let_def split: option.splits)

lemma trail_change:
  assumes "sl (trail p price ao t) \<noteq> sl t"
  shows "\<exists>a. ao = Some a \<and>
           (if is_long t
            then sl (trail p price ao t) = price - a * atr_multiplier p \<and> sl t < price - a * atr_multiplier p
            else sl (trail p price ao t) = price + a * atr_multiplier p \<and> price + a * atr_multiplier p < sl t)"
  using assms by (auto simp: trail_def Let_def split: option.splits if_splits)

lemma strategy_next_trades:
  assumes "strategy_next w p s ts = Inr (ord, ts')"
  shows "ts' = ts \<or> ts' = map (trail p (close_last s) (atr_last s)) ts"
  using assms
  by (auto simp: strategy_next_def Let_def split: if_splits option.splits sum.splits flow.splits)

lemma strategy_next_tightens:
  assumes "strategy_next w p s ts = Inr (ord, ts')"
  shows "list_all2 tightens ts ts'"
  using strategy_next_trades[OF assms]
  by (auto simp: list_all2_map2 tightens_refl tightens_trail intro!: list_all2_refl)

lemma run_next_tightens:
  "h \<in> set (run_next w p bars ts) \<Longrightarrow> list_all2 tightens ts h"
proof (induction bars arbitrary: ts)
  case Nil
  then show ?case by (simp add: list_all2_refl tightens_refl)
next
  case (Cons s ss)
  show ?case
  proof (cases "h = ts")
    case True
    then show ?thesis by (simp add: list_all2_refl tightens_refl)
  next
    case False
    with Cons.prems obtain ord ts' where
      step: "strategy_next w p s ts = Inr (ord, ts')" and mem: "h \<in> set (run_next w p ss ts')"
      by (cases "strategy_next w p s ts") auto
    from Cons.IH[OF mem] strategy_next_tightens[OF step] show ?thesis
      using list_all2_trans[of tightens tightens tightens] tightens_trans by blast
  qed
qed

lemma run_next_sorted_wrt:
  "sorted_wrt (list_all2 tightens) (run_next w p bars ts)"
proof (induction bars arbitrary: ts)
  case Nil
  then show ?case by simp
next
  case (Cons s ss)
  show ?case
  proof (cases "strategy_next w p s ts")
    case (Inl e)
    then show ?thesis by simp
  next
    case (Inr r)
    obtain ord ts' where r: "r = (ord, ts')" by (cases r)
    have step: "strategy_next w p s ts = Inr (ord, ts')" using Inr r by simp
    have "\<forall>h \<in> set (run_next w p ss ts'). list_all2 tightens ts h"
    proof
      fix h assume "h \<in> set (run_next w p ss ts')"
      from run_next_tightens[OF this] strategy_next_tightens[OF step]
      show "list_all2 tightens ts h"
        using list_all2_trans[of tightens tightens tightens] tightens_trans by blast
    qed
    with Cons.IH[of ts'] step show ?thesis by simp
  qed
qed

lemma run_next_long_sorted:
  assumes k: "k < length ts" and long: "is_long (ts ! k)"
  shows "sorted (map (\<lambda>h. sl (h ! k)) (run_next w p bars ts))"
proof -
  have "sorted_wrt (\<lambda>h1 h2. sl (h1 ! k) \<le> sl (h2 ! k)) (run_next w p bars ts)"
  proof (rule sorted_wrt_mono_rel[OF _ run_next_sorted_wrt])
    fix h1 h2
    assume h1: "h1 \<in> set (run_next w p bars ts)" and "h2 \<in> set (run_next w p bars ts)"
      and rel: "list_all2 tightens h1 h2"
    from run_next_tightens[OF h1] have a: "list_all2 tightens ts h1" .
    then have len: "length h1 = length ts" by (simp add: list_all2_lengthD)
    from a k have "tightens (ts ! k) (h1 ! k)" by (simp add: list_all2_nthD)
    with long have l1: "is_long (h1 ! k)" by (simp add: tightens_def is_long_def)
    from rel k len have "tightens (h1 ! k) (h2 ! k)" by (simp add: list_all2_nthD)
    with l1 show "sl (h1 ! k) \<le> sl (h2 ! k)" by (simp add: tightens_def)
  qed
  then show ?thesis by (simp add: sorted_wrt_map)
qed

lemma run_next_short_sorted:
  assumes k: "k < length ts" and short: "\<not> is_long (ts ! k)"
  shows "sorted (rev (map (\<lambda>h. sl (h ! k)) (run_next w p bars ts)))"
proof -
  have "sorted_wrt (\<lambda>h1 h2. sl (h1 ! k) \<ge> sl (h2 ! k)) (run_next w p bars ts)"
  proof (rule sorted_wrt_mono_rel[OF _ run_next_sorted_wrt])
    fix h1 h2
    assume h1: "h1 \<in> set (run_next w p bars ts)" and "h2 \<in> set (run_next w p bars ts)"
      and rel: "list_all2 tightens h1 h2"
    from run_next_tightens[OF h1] have a: "list_all2 tightens ts h1" .
    then have len: "length h1 = length ts" by (simp add: list_all2_lengthD)
    from a k have "tightens (ts ! k) (h1 ! k)" by (simp add: list_all2_nthD)
    with short have l1: "\<not> is_long (h1 ! k)" by (simp add: tightens_def is_long_def)
    from rel k len have "tightens (h1 ! k) (h2 ! k)" by (simp add: list_all2_nthD)
    with l1 show "sl (h1 ! k) \<ge> sl (h2 ! k)" by (simp add: tightens_def)
  qed
  then show ?thesis by (simp add: sorted_wrt_map sorted_wrt_rev flip: rev_map)
qed

text \<open>
  Claim C2. A bar changes the stop of an open trade only to the candidate stop (close minus
  ATR times multiplier for a long, close plus ATR times multiplier for a short), and only
  when the candidate is strictly tighter than the current stop. Hence, over any sequence of
  bars on the same open trades, the stops of a long trade are non-decreasing and the stops
  of a short trade are non-increasing.
\<close>

theorem trailing_stop_never_loosens:
  assumes k: "k < length trades"
  shows "(\<forall>ord trades'. strategy_next w p s trades = Inr (ord, trades') \<longrightarrow>
            sl (trades' ! k) \<noteq> sl (trades ! k) \<longrightarrow>
            (\<exists>a. atr_last s = Some a \<and>
               (if is_long (trades ! k)
                then sl (trades' ! k) = close_last s - a * atr_multiplier p
                     \<and> sl (trades ! k) < close_last s - a * atr_multiplier p
                else sl (trades' ! k) = close_last s + a * atr_multiplier p
                     \<and> close_last s + a * atr_multiplier p < sl (trades ! k))))
       \<and> (is_long (trades ! k) \<longrightarrow>
            sorted (map (\<lambda>h. sl (h ! k)) (run_next w p bars trades)))
       \<and> (\<not> is_long (trades ! k) \<longrightarrow>
            sorted (rev (map (\<lambda>h. sl (h ! k)) (run_next w p bars trades))))"
proof (intro conjI allI impI)
  fix ord trades'
  assume step: "strategy_next w p s trades = Inr (ord, trades')"
    and ch: "sl (trades' ! k) \<noteq> sl (trades ! k)"
  from strategy_next_trades[OF step] ch
  have eq: "trades' = map (trail p (close_last s) (atr_last s)) trades" by auto
  with k have nth: "trades' ! k = trail p (close_last s) (atr_last s) (trades ! k)" by simp
  from ch show "\<exists>a. atr_last s = Some a \<and>
               (if is_long (trades ! k)
                then sl (trades' ! k) = close_last s - a * atr_multiplier p
                     \<and> sl (trades ! k) < close_last s - a * atr_multiplier p
                else sl (trades' ! k) = close_last s + a * atr_multiplier p
                     \<and> close_last s + a * atr_multiplier p < sl (trades ! k))"
    unfolding nth by (rule trail_change)
next
  assume "is_long (trades ! k)"
  with k show "sorted (map (\<lambda>h. sl (h ! k)) (run_next w p bars trades))"
    by (rule run_next_long_sorted)
next
  assume "\<not> is_long (trades ! k)"
  with k show "sorted (rev (map (\<lambda>h. sl (h ! k)) (run_next w p bars trades)))"
    by (rule run_next_short_sorted)
qed

theorem trailing_stop_never_loosens_witness:
  "strategy_next warmup_final final_defaults rising_bar [long_trade]
     = Inr (None, [long_trade\<lparr>sl := 29400\<rparr>])
   \<and> map (\<lambda>h. sl (h ! 0)) (run_next warmup_final final_defaults [rising_bar, falling_bar] [long_trade])
     = [28400, 29400, 29400]
   \<and> sorted (map (\<lambda>h. sl (h ! 0)) (run_next warmup_final final_defaults [rising_bar, falling_bar] [long_trade]))
   \<and> map (\<lambda>h. sl (h ! 0)) (run_next warmup_final final_defaults [rising_bar, falling_bar] [short_trade])
     = [33000, 32600, 32100]
   \<and> sorted (rev (map (\<lambda>h. sl (h ! 0)) (run_next warmup_final final_defaults [rising_bar, falling_bar] [short_trade])))"
  using trailing_stop_never_loosens[of 0 "[long_trade]" warmup_final final_defaults rising_bar
      "[rising_bar, falling_bar]"]
    trailing_stop_never_loosens[of 0 "[short_trade]" warmup_final final_defaults rising_bar
      "[rising_bar, falling_bar]"]
  by (simp add: strategy_next_def position_def warmup_final_def final_defaults_def breakout_bar_def
      rising_bar_def falling_bar_def long_trade_def short_trade_def trail_def is_long_def Let_def)

section \<open>Objective function\<close>

text \<open>
  Claim C4. The objective returns the sentinel \<open>-1\<close> for every record with fewer than 10
  trades or a maximum drawdown below \<open>-20\<close> percent, whatever its return. For every record
  that passes both constraints it returns the return divided by the absolute value of the
  maximum drawdown: the numpy quotient, which is the finite ratio when the drawdown is not
  zero.
\<close>

theorem optim_func_constraints:
  "(n_trades series < 10 \<or> max_drawdown_pct series < - 20 \<longrightarrow> optim_func series = Finite (- 1))
   \<and> (10 \<le> n_trades series \<and> - 20 \<le> max_drawdown_pct series \<longrightarrow>
        optim_func series = np_div (return_pct series) \<bar>max_drawdown_pct series\<bar>)
   \<and> (10 \<le> n_trades series \<and> - 20 \<le> max_drawdown_pct series \<and> max_drawdown_pct series \<noteq> 0 \<longrightarrow>
        optim_func series = Finite (return_pct series / \<bar>max_drawdown_pct series\<bar>))"
  by (simp add: optim_func_def np_div_def)

theorem optim_func_constraints_witness:
  "optim_func few_trades_stats = Finite (- 1)
   \<and> optim_func deep_drawdown_stats = Finite (- 1)
   \<and> optim_func accepted_stats = Finite (7615 / 930)"
  using optim_func_constraints[of few_trades_stats] optim_func_constraints[of deep_drawdown_stats]
    optim_func_constraints[of accepted_stats]
  by (simp add: few_trades_stats_def deep_drawdown_stats_def accepted_stats_def np_div_def)

text \<open>
  Claim C10. On a record that passes both acceptance constraints and has a maximum drawdown
  of exactly zero, the objective divides the return by zero: the result is no finite score
  but an infinity with the sign of the return, or NaN when the return is zero as well.
\<close>

theorem optim_func_zero_drawdown:
  assumes "10 \<le> n_trades series" and "max_drawdown_pct series = 0"
  shows "optim_func series = np_div (return_pct series) 0
         \<and> optim_func series =
             (if 0 < return_pct series then PosInf
              else if return_pct series < 0 then NegInf else NaN)
         \<and> (\<forall>score. optim_func series \<noteq> Finite score)"
  using assms by (simp add: optim_func_def np_div_def)

theorem optim_func_zero_drawdown_witness:
  "10 \<le> n_trades no_drawdown_stats \<and> - 20 \<le> max_drawdown_pct no_drawdown_stats
   \<and> max_drawdown_pct no_drawdown_stats = 0
   \<and> optim_func no_drawdown_stats = PosInf"
  using optim_func_zero_drawdown[of no_drawdown_stats]
  by (simp add: no_drawdown_stats_def np_div_def)

section \<open>Rolling windows\<close>

lemma length_rolling: "length (rolling f n xs) = length xs"
  by (simp add: rolling_def)

lemma rolling_nth:
  "i < length xs \<Longrightarrow> rolling f n xs ! i =
     (if n = 0 \<or> Suc i < n then None
      else if list_all (\<lambda>v. v \<noteq> None) (window_at n i xs)
        then Some (f (map the (window_at n i xs))) else None)"
  by (simp add: rolling_def Let_def)

lemma window_at_defined:
  "list_all (\<lambda>v. v \<noteq> None) xs \<Longrightarrow> list_all (\<lambda>v. v \<noteq> None) (window_at n i xs)"
  unfolding window_at_def list_all_iff
  by (meson in_set_dropD in_set_takeD)

lemma rolling_None_iff:
  assumes "i < length xs" and "1 \<le> n" and "list_all (\<lambda>v. v \<noteq> None) xs"
  shows "rolling f n xs ! i = None \<longleftrightarrow> i < n - 1"
  using assms window_at_defined[OF assms(3), of n i]
  by (auto simp: rolling_nth)

lemma length_shift1: "length (shift1 xs) = length xs"
  by (simp add: shift1_def)

lemma shift1_nth:
  "i < length xs \<Longrightarrow> shift1 xs ! i = (if i = 0 then None else xs ! (i - 1))"
  by (cases i) (simp_all add: shift1_def)

lemma window_at_map_Some:
  "window_at n i (map Some x) = map Some (window_at n i x)"
  by (simp add: window_at_def take_map drop_map)

lemma rolling_map_Some_nth:
  assumes "i < length x" and "1 \<le> n"
  shows "rolling f n (map Some x) ! i =
     (if Suc i < n then None else Some (f (window_at n i x)))"
  using assms
  by (simp add: rolling_nth window_at_map_Some list_all_iff comp_def)

lemma set_window:
  assumes "n \<le> i" and "i \<le> length x"
  shows "set (take n (drop (i - n) x)) = (!) x ` {i - n..<i}"
proof -
  have "take n (drop (i - n) x) = map ((!) x) [i - n..<i]"
  proof (rule nth_equalityI)
    show "length (take n (drop (i - n) x)) = length (map ((!) x) [i - n..<i])"
      using assms by simp
  next
    fix j assume "j < length (take n (drop (i - n) x))"
    then show "take n (drop (i - n) x) ! j = map ((!) x) [i - n..<i] ! j"
      using assms by simp
  qed
  then show ?thesis by simp
qed

lemma donchian_nth:
  assumes n: "1 \<le> n" and i: "i < length x"
  shows "shift1 (rolling f n (map Some x)) ! i =
     (if i < n then None else Some (f (take n (drop (i - n) x))))"
proof (cases i)
  case 0
  with n i show ?thesis by (simp add: shift1_nth length_rolling)
next
  case (Suc j)
  with i have j: "j < length x" by simp
  have "shift1 (rolling f n (map Some x)) ! i = rolling f n (map Some x) ! j"
    using i Suc by (simp add: shift1_nth length_rolling)
  also have "\<dots> = (if Suc j < n then None else Some (f (window_at n j x)))"
    by (rule rolling_map_Some_nth[OF j n])
  finally show ?thesis
    using Suc by (simp add: window_at_def)
qed

lemma donchian_high_nth:
  assumes n: "1 \<le> n" and i: "i < length x"
  shows "donchian_high n x ! i = (if i < n then None else Some (Max ((!) x ` {i - n..<i})))"
  using donchian_nth[OF n i, of list_max] i
  by (auto simp: donchian_high_def list_max_def set_window)

lemma donchian_low_nth:
  assumes n: "1 \<le> n" and i: "i < length x"
  shows "donchian_low n x ! i = (if i < n then None else Some (Min ((!) x ` {i - n..<i})))"
  using donchian_nth[OF n i, of list_min] i
  by (auto simp: donchian_low_def list_min_def set_window)

lemma image_before:
  assumes "take i y = take i x" and "i \<le> length x" "i \<le> length y"
  shows "(!) y ` {k..<i} = (!) x ` {k..<i}"
proof (rule image_cong[OF refl])
  fix j assume "j \<in> {k..<i}"
  then have "j < i" by simp
  then have "y ! j = take i y ! j" "x ! j = take i x ! j" by simp_all
  with assms(1) show "y ! j = x ! j" by simp
qed

text \<open>
  Claim C5. For every window \<open>n \<ge> 1\<close> and every bar \<open>i\<close>, the channel value consulted at
  bar \<open>i\<close> is NaN for \<open>i < n\<close> and otherwise the maximum of the highs (the minimum of the
  lows) of the bars \<open>i - n, \<dots>, i - 1\<close>. It is the same for any two series that agree
  before bar \<open>i\<close>, so bar \<open>i\<close>'s own high or low never enters it; a bar whose high is
  above every earlier high lies strictly above its own channel value.
\<close>

theorem donchian_excludes_current_bar:
  assumes n: "1 \<le> n" and i: "i < length x"
  shows "donchian_high n x ! i = (if i < n then None else Some (Max ((!) x ` {i - n..<i})))
       \<and> donchian_low n x ! i = (if i < n then None else Some (Min ((!) x ` {i - n..<i})))
       \<and> (\<forall>y. i < length y \<and> take i y = take i x \<longrightarrow>
             donchian_high n y ! i = donchian_high n x ! i
             \<and> donchian_low n y ! i = donchian_low n x ! i)
       \<and> (n \<le> i \<and> (\<forall>j<i. x ! j < x ! i) \<longrightarrow> gt_nan (x ! i) (donchian_high n x ! i))
       \<and> (n \<le> i \<and> (\<forall>j<i. x ! i < x ! j) \<longrightarrow> lt_nan (x ! i) (donchian_low n x ! i))"
proof (intro conjI allI impI)
  show "donchian_high n x ! i = (if i < n then None else Some (Max ((!) x ` {i - n..<i})))"
    by (rule donchian_high_nth[OF n i])
  show "donchian_low n x ! i = (if i < n then None else Some (Min ((!) x ` {i - n..<i})))"
    by (rule donchian_low_nth[OF n i])
next
  fix y assume y: "i < length y \<and> take i y = take i x"
  then have im: "(!) y ` {i - n..<i} = (!) x ` {i - n..<i}"
    using i by (intro image_before) simp_all
  from y show "donchian_high n y ! i = donchian_high n x ! i"
    by (simp add: donchian_high_nth[OF n] i im)
  from y show "donchian_low n y ! i = donchian_low n x ! i"
    by (simp add: donchian_low_nth[OF n] i im)
next
  assume a: "n \<le> i \<and> (\<forall>j<i. x ! j < x ! i)"
  with n have ne: "{i - n..<i} \<noteq> {}" by simp
  from a have "Max ((!) x ` {i - n..<i}) < x ! i"
    using ne by (subst Max_less_iff) auto
  with a show "gt_nan (x ! i) (donchian_high n x ! i)"
    by (simp add: donchian_high_nth[OF n i] gt_nan_def)
next
  assume a: "n \<le> i \<and> (\<forall>j<i. x ! i < x ! j)"
  with n have ne: "{i - n..<i} \<noteq> {}" by simp
  from a have "x ! i < Min ((!) x ` {i - n..<i})"
    using ne by (subst Min_gr_iff) auto
  with a show "lt_nan (x ! i) (donchian_low n x ! i)"
    by (simp add: donchian_low_nth[OF n i] lt_nan_def)
qed

lemma upt2: "{0..<2::nat} = {0, 1}" by auto

theorem donchian_excludes_current_bar_witness:
  "donchian_high 2 highs ! 2 = Some 11 \<and> donchian_low 2 lows ! 2 = Some 8
   \<and> donchian_high 2 (highs[2 := 99]) ! 2 = Some 11
   \<and> gt_nan (highs ! 2) (donchian_high 2 highs ! 2)
   \<and> lt_nan (lows ! 2) (donchian_low 2 lows ! 2)"
  using donchian_excludes_current_bar[of 2 2 highs] donchian_excludes_current_bar[of 2 2 lows]
  by (simp add: highs_def lows_def upt2 less_2_cases_iff gt_nan_def lt_nan_def)

section \<open>Warm-up of the moving average and of the ATR\<close>

lemma row_max_Some: "row_max (Some v # vs) \<noteq> None"
  by (simp add: row_max_def Let_def)

lemma length_true_range:
  assumes "length high = N" and "length low = N" and "length close = N"
  shows "length (true_range high low close) = N"
  using assms by (simp add: true_range_def Let_def length_shift1)

lemma true_range_nth:
  assumes "length high = N" and "length low = N" and "length close = N" and "i < N"
  shows "true_range high low close ! i =
     row_max [Some (high ! i - low ! i),
              abs_nan (sub_nan (Some (high ! i)) (shift1 (map Some close) ! i)),
              abs_nan (sub_nan (Some (low ! i)) (shift1 (map Some close) ! i))]"
  using assms by (simp add: true_range_def Let_def length_shift1 sub_nan_def)

lemma true_range_defined:
  assumes "length high = N" and "length low = N" and "length close = N"
  shows "list_all (\<lambda>v. v \<noteq> None) (true_range high low close)"
  unfolding list_all_length
  using assms row_max_Some
  by (simp add: length_true_range[OF assms] true_range_nth[OF assms])

lemma true_range_first:
  assumes "length high = N" and "length low = N" and "length close = N" and "0 < N"
  shows "true_range high low close ! 0 = Some (high ! 0 - low ! 0)"
  using assms
  by (simp add: true_range_nth[OF assms] shift1_nth sub_nan_def abs_nan_def row_max_def)

lemma SMA_None_iff:
  assumes "1 \<le> n" and "i < length values"
  shows "SMA values n ! i = None \<longleftrightarrow> i < n - 1"
  using assms by (auto simp: SMA_def rolling_map_Some_nth)

lemma ATR_None_iff:
  assumes n: "1 \<le> n" and wf: "well_formed df" and i: "i < n_rows df"
  shows "ATR df n ! i = None \<longleftrightarrow> i < n - 1"
proof -
  from wf obtain high low close where
    cols: "High df = Some high" "Low df = Some low" "Close df = Some close"
    and len: "length high = n_rows df" "length low = n_rows df" "length close = n_rows df"
    by (auto simp: well_formed_def split: option.splits)
  have atr: "ATR df n = rolling mean n (true_range high low close)"
    by (simp add: ATR_def cols)
  have "i < length (true_range high low close)"
    using i by (simp add: length_true_range[OF len])
  then show ?thesis
    unfolding atr by (rule rolling_None_iff[OF _ n true_range_defined[OF len]])
qed

text \<open>
  Claim C6, as amended. For every window \<open>n \<ge> 1\<close> and well-formed input, the moving average
  and the ATR are both NaN at exactly the first \<open>n - 1\<close> positions and defined thereafter.
  The true range at position 0 is defined: the row maximum leaves out the two terms that
  need the previous close, so it is high minus low.
\<close>

theorem warmup_lengths:
  assumes n: "1 \<le> n"
  shows "(\<forall>i<length values. SMA values n ! i = None \<longleftrightarrow> i < n - 1)
       \<and> (well_formed df \<longrightarrow> (\<forall>i<n_rows df. ATR df n ! i = None \<longleftrightarrow> i < n - 1))
       \<and> (well_formed df \<and> 0 < n_rows df \<longrightarrow>
            true_range (the (High df)) (the (Low df)) (the (Close df)) ! 0
              = Some (the (High df) ! 0 - the (Low df) ! 0))"
proof (intro conjI allI impI)
  fix i assume "i < length values"
  with n show "SMA values n ! i = None \<longleftrightarrow> i < n - 1" by (rule SMA_None_iff)
next
  fix i assume "well_formed df" "i < n_rows df"
  with n show "ATR df n ! i = None \<longleftrightarrow> i < n - 1" by (rule ATR_None_iff)
next
  assume a: "well_formed df \<and> 0 < n_rows df"
  then obtain high low close where
    cols: "High df = Some high" "Low df = Some low" "Close df = Some close"
    and len: "length high = n_rows df" "length low = n_rows df" "length close = n_rows df"
    by (auto simp: well_formed_def split: option.splits)
  from a show "true_range (the (High df)) (the (Low df)) (the (Close df)) ! 0
              = Some (the (High df) ! 0 - the (Low df) ! 0)"
    by (simp add: cols true_range_first[OF len])
qed

text \<open>
  Claim C6 as stated fails: with window 2 the ATR at position 1, one of the first
  \<open>n - 1\<close> plus one positions, is defined, and so is the true range at position 0.
\<close>

theorem atr_warmup_counterexample:
  "well_formed example_df \<and> (1::nat) < (2 - 1) + 1
   \<and> true_range [12, 13, 15] [10, 11, 12] [11, 12, 14] ! 0 = Some 2
   \<and> ATR example_df 2 ! 1 = Some 2"
  by (simp add: example_df_def well_formed_def ATR_def rolling_nth true_range_def shift1_def
      window_at_def sub_nan_def abs_nan_def row_max_def mean_def Let_def)

theorem warmup_lengths_witness:
  "SMA [11, 12, 14] 2 ! 0 = None \<and> SMA [11, 12, 14] 2 ! 1 \<noteq> None
   \<and> ATR example_df 2 ! 0 = None \<and> ATR example_df 2 ! 1 \<noteq> None \<and> ATR example_df 2 ! 2 \<noteq> None
   \<and> true_range [12, 13, 15] [10, 11, 12] [11, 12, 14] ! 0 = Some 2"
proof -
  note w = warmup_lengths[of 2 "[11, 12, 14]" example_df]
  have wf: "well_formed example_df"
    by (simp add: example_df_def well_formed_def)
  from w have s: "i < 3 \<Longrightarrow> (SMA [11, 12, 14] 2 ! i = None) = (i < 1)" for i
    by simp
  from w wf have a: "i < 3 \<Longrightarrow> (ATR example_df 2 ! i = None) = (i < 1)" for i
    by (simp add: example_df_def)
  from w wf have t: "true_range [12, 13, 15] [10, 11, 12] [11, 12, 14] ! 0 = Some 2"
    by (simp add: example_df_def)
  show ?thesis
    using s[of 0] s[of 1] a[of 0] a[of 1] a[of 2] t by simp
qed

section \<open>Degenerate stop distance\<close>

text \<open>
  A stop distance of zero returns before any division, and a negative one gives a size
  below one (for a non-negative risk amount and a non-zero price). A NaN ATR is not caught:
  \<^verbatim>\<open>NaN == 0\<close> is false and \<^verbatim>\<open>int\<close> of the NaN quotient raises.
\<close>

lemma flat_nan_atr_value_error:
  assumes "\<not> position trades" and "warmup p \<le> len_data s" and "ma_last s = Some m"
    and "atr_last s = None"
  shows "strategy_next warmup p s trades = Inl ValueError"
  using assms by (simp add: strategy_next_def entry_block_def Let_def)

lemma zero_stop_distance_no_entry:
  assumes "atr_last s = Some a" and "a * atr_multiplier p = 0" and "\<not> position trades"
  shows "strategy_next warmup p s trades = Inr (None, trades)"
  using assms by (simp add: strategy_next_def entry_block_def Let_def split: option.splits)

lemma py_int_nonpos: "x \<le> 0 \<Longrightarrow> py_int x \<le> 0"
  unfolding py_int_def by (auto simp: floor_le_zero ceiling_le_zero)

lemma negative_stop_distance_no_entry:
  assumes atr: "atr_last s = Some a" and d: "a * atr_multiplier p < 0" and flat: "\<not> position trades"
    and risk: "0 \<le> equity s * risk_per_trade p" and price: "close_last s \<noteq> 0"
  shows "strategy_next warmup p s trades = Inr (None, trades)"
proof -
  have "equity s * risk_per_trade p / (a * atr_multiplier p) \<le> 0"
    using d risk by (simp add: divide_nonneg_neg)
  then have "py_int (equity s * risk_per_trade p / (a * atr_multiplier p)) \<le> 0"
    by (rule py_int_nonpos)
  then have u: "min (py_int (equity s * risk_per_trade p / (a * atr_multiplier p))) k < 1" for k
    by linarith
  have dne: "a * atr_multiplier p \<noteq> 0" using d by linarith
  have "entry_block p s up st = Inr Return" for up st
    unfolding entry_block_def Let_def int_of_quotient_def
    by (simp only: atr option.case dne price if_False sum.case u if_True)
  with flat show ?thesis
    by (simp add: strategy_next_def Let_def split: option.splits)
qed

text \<open>
  Claim C3 says that a bar evaluated flat with an undefined (NaN) ATR requests no order and
  raises no error. On the breakout bar with a NaN ATR both strategy classes raise
  ValueError.
\<close>

theorem nan_atr_raises:
  "FinalLowDrawdownStrategy_next final_defaults nan_atr_bar [] = Inl ValueError
   \<and> RiskManagedStrategy_next risk_managed_defaults nan_atr_bar [] = Inl ValueError"
  by (simp add: FinalLowDrawdownStrategy_next_def RiskManagedStrategy_next_def strategy_next_def
      entry_block_def warmup_final_def warmup_risk_managed_def final_defaults_def
      risk_managed_defaults_def nan_atr_bar_def breakout_bar_def position_def Let_def)

section \<open>Warm-up guard\<close>




section \<open>Doubling the risk fraction\<close>






end
